theory Spec2Isabelle
  imports Complex_Main "HOL-Library.Word" "HOL-Library.AList"
begin

section \<open>Values: errors, floats, cells and dtypes\<close>

text \<open>
  Every \<^verbatim>\<open>raise\<close> of \<^verbatim>\<open>zipline/data/adjustments.py\<close> and of the libraries it
  calls is a value of \<open>error\<close>; a function that can raise returns \<open>error + 'a\<close>
  with \<open>Inl\<close> for the exception. \<open>NoDataOnDate\<close> is the exception of
  \<^verbatim>\<open>zipline.data.bar_reader\<close> that \<^verbatim>\<open>calc_dividend_ratios\<close> catches,
  \<open>OperationalError\<close> is what sqlite3 raises for a missing table or column,
  \<open>SidsNotFound\<close> what the asset finder raises for an unknown sid.
\<close>

datatype error =
    ValueError | TypeError | KeyError | IndexError | AttributeError
  | NoDataOnDate | OperationalError | SidsNotFound | OtherError

text \<open>
  A 64-bit float with its special values. Finite values are rationals: the sign of
  zero is not represented, and \<open>fdiv\<close> and \<open>fsub\<close> do not round their results to
  binary64 (the one quotient whose rounding decides a result, that of line 126, is
  rounded: \<open>true_divide\<close> below). Division follows numpy's scalar rule (no exception:
  \<open>x / 0\<close> is an infinity, \<open>0 / 0\<close> is NaN).
\<close>

datatype float64 = Finite rat | PosInf | NegInf | NaN

fun fdiv :: "float64 \<Rightarrow> float64 \<Rightarrow> float64" where
  "fdiv NaN y = NaN"
| "fdiv x NaN = NaN"
| "fdiv (Finite a) (Finite b) =
     (if b = 0 then (if a = 0 then NaN else if 0 < a then PosInf else NegInf)
      else Finite (a / b))"
| "fdiv (Finite a) PosInf = Finite 0"
| "fdiv (Finite a) NegInf = Finite 0"
| "fdiv PosInf (Finite b) = (if b < 0 then NegInf else PosInf)"
| "fdiv NegInf (Finite b) = (if b < 0 then PosInf else NegInf)"
| "fdiv PosInf PosInf = NaN"
| "fdiv PosInf NegInf = NaN"
| "fdiv NegInf PosInf = NaN"
| "fdiv NegInf NegInf = NaN"

fun fsub :: "float64 \<Rightarrow> float64 \<Rightarrow> float64" where
  "fsub NaN y = NaN"
| "fsub x NaN = NaN"
| "fsub (Finite a) (Finite b) = Finite (a - b)"
| "fsub (Finite a) PosInf = NegInf"
| "fsub (Finite a) NegInf = PosInf"
| "fsub PosInf (Finite b) = PosInf"
| "fsub NegInf (Finite b) = NegInf"
| "fsub PosInf PosInf = NaN"
| "fsub NegInf NegInf = NaN"
| "fsub PosInf NegInf = PosInf"
| "fsub NegInf PosInf = NegInf"

text \<open>
  The dtypes that occur: \<^verbatim>\<open>int64_dtype\<close>, \<^verbatim>\<open>uint32_dtype\<close> and
  \<^verbatim>\<open>float64_dtype\<close> of \<^verbatim>\<open>zipline.utils.numpy_utils\<close>, the timestamp column
  \<^verbatim>\<open>datetime64[ns]\<close> of an input batch, the timezone-aware
  \<^verbatim>\<open>datetime64[ns, UTC]\<close> that \<^verbatim>\<open>parse_dates\<close> produces, and \<^verbatim>\<open>object\<close>
  for anything else. The builtin \<^verbatim>\<open>float\<close> of the payout tables' declarations is
  \<open>float64_dtype\<close>, the only floating dtype here.
\<close>

datatype dtype =
    int64_dtype | uint32_dtype | float64_dtype
  | datetime64_ns | datetime64_ns_UTC | object_dtype

text \<open>
  A value in a batch or in a table. A timestamp is an \<open>IntCell\<close>: its nanoseconds
  since the Unix epoch in a batch, its seconds in a table. \<open>Null\<close> is SQL's NULL.
  \<open>NaT\<close> is pandas' missing timestamp, the least 64-bit integer.
\<close>

datatype cell = IntCell int | FloatCell float64 | Null

definition NaT :: int where
  "NaT = - (2 ^ 63)"

text \<open>\<^verbatim>\<open>np.issubdtype(actual, expected)\<close> on these dtypes: none is a subtype of another.\<close>

definition issubdtype :: "dtype \<Rightarrow> dtype \<Rightarrow> bool" where
  "issubdtype actual expected = (actual = expected)"

section \<open>Batches (DataFrames)\<close>

text \<open>
  A DataFrame: its index, one label per row, and its columns in order, each a name,
  a dtype and the values. The index is an integer index without a name, as
  \<^verbatim>\<open>pd.DataFrame\<close> gives a batch built from arrays (\<open>0, 1, \<dots>\<close>); \<^verbatim>\<open>to_sql\<close>
  stores it in a column \<^verbatim>\<open>index\<close> and \<^verbatim>\<open>read_sql\<close> takes it back out with
  \<^verbatim>\<open>index_col='index'\<close>.
\<close>

type_synonym column = "dtype \<times> cell list"

record frame =
  index :: "int list"
  cols :: "(string \<times> column) list"

definition nrows :: "frame \<Rightarrow> nat" where
  "nrows f = length (index f)"

definition columns :: "frame \<Rightarrow> string list" where
  "columns f = map fst (cols f)"

definition dtypes :: "frame \<Rightarrow> string \<rightharpoonup> dtype" where
  "dtypes f = map_option fst \<circ> map_of (cols f)"

text \<open>\<^verbatim>\<open>frame.empty\<close>: some axis has length 0.\<close>

definition empty :: "frame \<Rightarrow> bool" where
  "empty f = (nrows f = 0 \<or> cols f = [])"



text \<open>
  \<^verbatim>\<open>pd.DataFrame(np.array([], dtype=list(expected_dtypes.items())))\<close>: no rows, the
  declared columns with the declared dtypes.
\<close>

definition empty_frame :: "(string \<times> dtype) list \<Rightarrow> frame" where
  "empty_frame expected_dtypes =
     \<lparr>index = [], cols = map (\<lambda>(n, d). (n, (d, []))) expected_dtypes\<rparr>"

text \<open>The rows of a batch, each as the list of (column name, value).\<close>

definition frame_rows :: "frame \<Rightarrow> (string \<times> cell) list list" where
  "frame_rows f = map (\<lambda>i. map (\<lambda>(n, d, vs). (n, vs ! i)) (cols f)) [0..<nrows f]"

section \<open>The declared schemas\<close>

definition SQLITE_ADJUSTMENT_TABLENAMES :: "string set" where
  "SQLITE_ADJUSTMENT_TABLENAMES = {''splits'', ''dividends'', ''mergers''}"

definition SQLITE_ADJUSTMENT_COLUMN_DTYPES :: "(string \<times> dtype) list" where
  "SQLITE_ADJUSTMENT_COLUMN_DTYPES =
     [(''effective_date'', int64_dtype),
      (''ratio'', float64_dtype),
      (''sid'', int64_dtype)]"

definition SQLITE_DIVIDEND_PAYOUT_COLUMN_DTYPES :: "(string \<times> dtype) list" where
  "SQLITE_DIVIDEND_PAYOUT_COLUMN_DTYPES =
     [(''sid'', int64_dtype),
      (''ex_date'', int64_dtype),
      (''declared_date'', int64_dtype),
      (''record_date'', int64_dtype),
      (''pay_date'', int64_dtype),
      (''amount'', float64_dtype)]"

definition SQLITE_STOCK_DIVIDEND_PAYOUT_COLUMN_DTYPES :: "(string \<times> dtype) list" where
  "SQLITE_STOCK_DIVIDEND_PAYOUT_COLUMN_DTYPES =
     [(''sid'', int64_dtype),
      (''ex_date'', int64_dtype),
      (''declared_date'', int64_dtype),
      (''record_date'', int64_dtype),
      (''pay_date'', int64_dtype),
      (''payment_sid'', int64_dtype),
      (''ratio'', float64_dtype)]"

section \<open>The store (the SQLite connection)\<close>

text \<open>
  A table keeps its columns, each with the dtype of the batch that created it, and
  its rows, each a list of cells in the order of the columns. The column
  \<^verbatim>\<open>index\<close> that \<^verbatim>\<open>to_sql\<close> adds in front of them for the index of the batch
  is kept apart, in \<open>tindex\<close>: one label per row. The connection holds the tables by
  name and counts the cursors that are open on it. SQLite's column affinity is not
  represented: a value is stored as it is bound.
\<close>

record table =
  tcols :: "(string \<times> dtype) list"
  trows :: "cell list list"
  tindex :: "int list"

record connection =
  tables :: "(string \<times> table) list"
  open_cursors :: nat

text \<open>The value that pandas binds for a cell: a NaN is written as NULL.\<close>

fun sql_value :: "cell \<Rightarrow> cell" where
  "sql_value (FloatCell NaN) = Null"
| "sql_value c = c"

text \<open>The row of a table as INSERT builds it from a batch row: by column name, NULL
  where the batch has no such column.\<close>

definition row_for :: "(string \<times> dtype) list \<Rightarrow> (string \<times> cell) list \<Rightarrow> cell list" where
  "row_for tc r =
     map (\<lambda>(n, d). case map_of r n of Some c \<Rightarrow> sql_value c | None \<Rightarrow> Null) tc"

text \<open>
  \<^verbatim>\<open>frame.to_sql(tablename, conn, if_exists='append', chunksize=50000)\<close>: the
  table is created from the batch's columns (and the column for its index) when it
  does not exist; the rows are then inserted by column name, in one transaction. A
  batch without rows inserts nothing; a batch column the table does not have makes
  the INSERT fail.
\<close>

definition to_sql :: "string \<Rightarrow> frame \<Rightarrow> connection \<Rightarrow> (error + unit) \<times> connection" where
  "to_sql tablename f conn =
     (case map_of (tables conn) tablename of
        None \<Rightarrow>
          (let tc = map (\<lambda>(n, d, vs). (n, d)) (cols f) in
           (Inr (), conn\<lparr>tables := tables conn @
              [(tablename, \<lparr>tcols = tc, trows = map (row_for tc) (frame_rows f),
                             tindex = index f\<rparr>)]\<rparr>))
      | Some t \<Rightarrow>
          if nrows f = 0 then (Inr (), conn)
          else if list_all (\<lambda>n. n \<in> set (map fst (tcols t))) (columns f)
          then (Inr (), conn\<lparr>tables := AList.update tablename
                  (t\<lparr>trows := trows t @ map (row_for (tcols t)) (frame_rows f),
                     tindex := tindex t @ index f\<rparr>)
                  (tables conn)\<rparr>)
          else (Inl OperationalError, conn))"

section \<open>SQLiteAdjustmentWriter\<close>

text \<open>The loop of \<^verbatim>\<open>_write\<close> over \<^verbatim>\<open>six.iteritems(expected_dtypes)\<close>.\<close>

fun check_dtypes :: "(string \<rightharpoonup> dtype) \<Rightarrow> (string \<times> dtype) list \<Rightarrow> error + unit" where
  "check_dtypes actual_dtypes [] = Inr ()"
| "check_dtypes actual_dtypes ((colname, expected) # rest) =
     (case actual_dtypes colname of
        None \<Rightarrow> Inl KeyError
      | Some actual \<Rightarrow>
          if \<not> issubdtype actual expected then Inl TypeError
          else check_dtypes actual_dtypes rest)"

text \<open>\<^verbatim>\<open>SQLiteAdjustmentWriter._write\<close>. The connection comes back with the result,
  also when the call raises.\<close>

definition write_impl ::
  "string \<Rightarrow> (string \<times> dtype) list \<Rightarrow> frame option \<Rightarrow> connection
     \<Rightarrow> (error + unit) \<times> connection" where
  "write_impl tablename expected_dtypes fr conn =
     (case fr of
        None \<Rightarrow> to_sql tablename (empty_frame expected_dtypes) conn
      | Some f \<Rightarrow>
          if empty f then to_sql tablename (empty_frame expected_dtypes) conn
          else if set (columns f) \<noteq> set (map fst expected_dtypes)
          then (Inl ValueError, conn)
          else (case check_dtypes (dtypes f) expected_dtypes of
                  Inl e \<Rightarrow> (Inl e, conn)
                | Inr u \<Rightarrow> to_sql tablename f conn))"

text \<open>
  \<^verbatim>\<open>values.astype('datetime64[s]').astype('int64')\<close>, by the dtype of the column:
  a timestamp in nanoseconds is floored to whole seconds (NaT stays NaT), an integer
  is read as seconds already, a float is cut towards zero as C's cast does (a NaN,
  an infinity or a value outside the 64-bit integers gives the least of them, NaT).
\<close>

fun seconds_cell :: "dtype \<Rightarrow> cell \<Rightarrow> cell" where
  "seconds_cell datetime64_ns (IntCell v) = IntCell (if v = NaT then NaT else v div 1000000000)"
| "seconds_cell datetime64_ns_UTC (IntCell v) = IntCell (if v = NaT then NaT else v div 1000000000)"
| "seconds_cell d (IntCell v) = IntCell v"
| "seconds_cell d (FloatCell (Finite q)) =
     IntCell (let t = (if 0 \<le> q then \<lfloor>q\<rfloor> else \<lceil>q\<rceil>)
              in if - (2 ^ 63) \<le> t \<and> t < 2 ^ 63 then t else NaT)"
| "seconds_cell d (FloatCell x) = IntCell NaT"
| "seconds_cell d Null = Null"

definition astype_seconds_int64 :: "column \<Rightarrow> column" where
  "astype_seconds_int64 c = (int64_dtype, map (seconds_cell (fst c)) (snd c))"

text \<open>
  \<^verbatim>\<open>frame[name] = frame[name].values.astype('datetime64[s]').astype('int64')\<close>:
  reading a column the batch does not have raises KeyError; the assignment keeps the
  column's place.
\<close>

definition encode_date_column :: "string \<Rightarrow> frame \<Rightarrow> error + frame" where
  "encode_date_column name f =
     (case map_of (cols f) name of
        None \<Rightarrow> Inl KeyError
      | Some c \<Rightarrow>
          Inr (f\<lparr>cols := map (\<lambda>(n, c'). if n = name then (n, astype_seconds_int64 c') else (n, c'))
                           (cols f)\<rparr>))"

fun encode_date_columns :: "string list \<Rightarrow> frame \<Rightarrow> error + frame" where
  "encode_date_columns [] f = Inr f"
| "encode_date_columns (name # names) f =
     (case encode_date_column name f of
        Inl e \<Rightarrow> Inl e
      | Inr f' \<Rightarrow> encode_date_columns names f')"

definition write_frame ::
  "string \<Rightarrow> frame option \<Rightarrow> connection \<Rightarrow> (error + unit) \<times> connection" where
  "write_frame tablename fr conn =
     (if tablename \<notin> SQLITE_ADJUSTMENT_TABLENAMES then (Inl ValueError, conn)
      else (case fr of
              None \<Rightarrow> write_impl tablename SQLITE_ADJUSTMENT_COLUMN_DTYPES None conn
            | Some f \<Rightarrow>
                if empty f
                then write_impl tablename SQLITE_ADJUSTMENT_COLUMN_DTYPES (Some f) conn
                else (case encode_date_column ''effective_date'' f of
                        Inl e \<Rightarrow> (Inl e, conn)
                      | Inr f' \<Rightarrow>
                          write_impl tablename SQLITE_ADJUSTMENT_COLUMN_DTYPES (Some f') conn)))"

definition write_dividend_payouts ::
  "frame option \<Rightarrow> connection \<Rightarrow> (error + unit) \<times> connection" where
  "write_dividend_payouts fr conn =
     write_impl ''dividend_payouts'' SQLITE_DIVIDEND_PAYOUT_COLUMN_DTYPES fr conn"

definition write_stock_dividend_payouts ::
  "frame option \<Rightarrow> connection \<Rightarrow> (error + unit) \<times> connection" where
  "write_stock_dividend_payouts fr conn =
     write_impl ''stock_dividend_payouts'' SQLITE_STOCK_DIVIDEND_PAYOUT_COLUMN_DTYPES fr conn"

text \<open>\<^verbatim>\<open>_write_dividends\<close> and \<^verbatim>\<open>_write_stock_dividends\<close>: the four dates are
  encoded in the source's order, on a copy of the batch.\<close>

definition write_dividends_impl ::
  "frame option \<Rightarrow> connection \<Rightarrow> (error + unit) \<times> connection" where
  "write_dividends_impl dividends conn =
     (case dividends of
        None \<Rightarrow> write_dividend_payouts None conn
      | Some d \<Rightarrow>
          (case encode_date_columns
                  [''ex_date'', ''record_date'', ''declared_date'', ''pay_date''] d of
             Inl e \<Rightarrow> (Inl e, conn)
           | Inr dividend_payouts \<Rightarrow> write_dividend_payouts (Some dividend_payouts) conn))"

definition write_stock_dividends_impl ::
  "frame option \<Rightarrow> connection \<Rightarrow> (error + unit) \<times> connection" where
  "write_stock_dividends_impl stock_dividends conn =
     (case stock_dividends of
        None \<Rightarrow> write_stock_dividend_payouts None conn
      | Some d \<Rightarrow>
          (case encode_date_columns
                  [''ex_date'', ''record_date'', ''declared_date'', ''pay_date''] d of
             Inl e \<Rightarrow> (Inl e, conn)
           | Inr stock_dividend_payouts \<Rightarrow>
               write_stock_dividend_payouts (Some stock_dividend_payouts) conn))"

section \<open>The dividend ratios\<close>

text \<open>
  A session of the trading calendar: its instant in nanoseconds since the epoch, UTC,
  and the offset of the calendar's zone at that instant. \<^verbatim>\<open>tz_localize(None)\<close>
  keeps the wall-clock time. A calendar is the list of its sessions, in order.
\<close>

record session =
  utc_ns :: int
  utcoffset_ns :: int

definition tz_localize_None :: "session list \<Rightarrow> int list" where
  "tz_localize_None calendar = map (\<lambda>s. utc_ns s + utcoffset_ns s) calendar"

text \<open>\<^verbatim>\<open>calendar[i]\<close>: Python's indexing, a negative index counts from the end.\<close>

definition getitem :: "'a list \<Rightarrow> int \<Rightarrow> error + 'a" where
  "getitem xs i =
     (if 0 \<le> i \<and> i < int (length xs) then Inr (xs ! nat i)
      else if i < 0 \<and> - int (length xs) \<le> i then Inr (xs ! nat (int (length xs) + i))
      else Inl IndexError)"

text \<open>
  \<^verbatim>\<open>get_indexer(ex_dates, method='bfill')\<close> on an increasing index of timestamps:
  for each target the position of the first entry at or after it, \<open>-1\<close> when there
  is none and for a missing target (NaT). Targets of another dtype than timestamps
  cannot be compared with the index: TypeError.
\<close>

primrec bfill_from :: "nat \<Rightarrow> int list \<Rightarrow> int \<Rightarrow> int" where
  "bfill_from i [] x = - 1"
| "bfill_from i (s # ss) x = (if x \<le> s then int i else bfill_from (Suc i) ss x)"

definition get_indexer_bfill :: "int list \<Rightarrow> column \<Rightarrow> error + int list" where
  "get_indexer_bfill idx targets =
     (if fst targets \<in> {datetime64_ns, datetime64_ns_UTC}
      then Inr (map (\<lambda>c. case c of
                           IntCell v \<Rightarrow> if v = NaT then - 1 else bfill_from 0 idx v
                         | _ \<Rightarrow> - 1) (snd targets))
      else Inl TypeError)"

text \<open>\<^verbatim>\<open>dividends.ex_date.values\<close>: attribute access to a column, the array with
  its dtype; a batch without the column raises AttributeError.\<close>

definition getattr_values :: "frame \<Rightarrow> string \<Rightarrow> error + column" where
  "getattr_values f name =
     (case map_of (cols f) name of None \<Rightarrow> Inl AttributeError | Some c \<Rightarrow> Inr c)"

text \<open>
  \<^verbatim>\<open>isnull = np.isnull\<close> (line 379). numpy exports \<^verbatim>\<open>isnan\<close>, \<^verbatim>\<open>isnat\<close>,
  \<^verbatim>\<open>isinf\<close> and \<^verbatim>\<open>isfinite\<close>; \<^verbatim>\<open>isnull\<close> is a function of pandas, and the module
  \<^verbatim>\<open>numpy\<close> has no attribute of that name. The attribute access raises
  AttributeError.
\<close>

definition np_isnull :: "error + (float64 \<Rightarrow> bool)" where
  "np_isnull = Inl AttributeError"

text \<open>The daily bar reader: \<^verbatim>\<open>get_value(sid, dt, field)\<close>.\<close>

type_synonym bar_reader = "cell \<Rightarrow> session \<Rightarrow> string \<Rightarrow> error + float64"

text \<open>A warning of the log: the sid, the ex-date and the amount of the row.\<close>

type_synonym warning = "cell \<times> int \<times> cell"

fun to_float64 :: "cell \<Rightarrow> float64" where
  "to_float64 (FloatCell x) = x"
| "to_float64 (IntCell n) = Finite (of_int n)"
| "to_float64 Null = NaN"

fun int_value :: "cell \<Rightarrow> int" where
  "int_value (IntCell v) = v"
| "int_value c = NaT"

text \<open>
  The loop of \<^verbatim>\<open>calc_dividend_ratios\<close> (lines 381 to 402) over the rows
  \<open>(sid, ex_date, amount, day_loc)\<close>, with the null test it is given. It returns,
  for each row, the entries \<^verbatim>\<open>effective_dates[i]\<close> and \<^verbatim>\<open>ratios[i]\<close>, which
  stay at \<open>-1\<close> and NaN when the row is not priced. Only NoDataOnDate is caught.
\<close>

fun ratio_loop ::
  "(float64 \<Rightarrow> bool) \<Rightarrow> bar_reader \<Rightarrow> session list \<Rightarrow> (cell \<times> int \<times> cell \<times> int) list
     \<Rightarrow> warning list \<Rightarrow> (error + (int \<times> float64) list) \<times> warning list" where
  "ratio_loop isnull reader calendar [] warnings = (Inr [], warnings)"
| "ratio_loop isnull reader calendar ((sid, ex_date, amount, day_loc) # rest) warnings =
     (case getitem calendar (day_loc - 1) of
        Inl e \<Rightarrow> (Inl e, warnings)
      | Inr prev_close_date \<Rightarrow>
          (case reader sid prev_close_date ''close'' of
             Inl e \<Rightarrow>
               if e = NoDataOnDate
               then (case ratio_loop isnull reader calendar rest
                            (warnings @ [(sid, ex_date, amount)]) of
                       (Inl e', warnings') \<Rightarrow> (Inl e', warnings')
                     | (Inr out, warnings') \<Rightarrow> (Inr ((- 1, NaN) # out), warnings'))
               else (Inl e, warnings)
           | Inr prev_close \<Rightarrow>
               (case ratio_loop isnull reader calendar rest warnings of
                  (Inl e', warnings') \<Rightarrow> (Inl e', warnings')
                | (Inr out, warnings') \<Rightarrow>
                    if \<not> isnull prev_close
                    then (Inr ((ex_date, fsub (Finite 1) (fdiv (to_float64 amount) prev_close))
                               # out), warnings')
                    else (Inr ((- 1, NaN) # out), warnings'))))"

text \<open>
  \<^verbatim>\<open>astype('datetime64[ns]').astype('datetime64[s]').astype(uint32_dtype)\<close>: the
  whole seconds of the instant, cut to their low 32 bits.
\<close>

definition effective_date_uint32 :: "int \<Rightarrow> 32 word" where
  "effective_date_uint32 ns = word_of_int (if ns = NaT then NaT else ns div 1000000000)"

text \<open>Lines 404 to 417: the rows whose effective date is not \<open>-1\<close>, as a batch.\<close>

definition ratio_frame :: "dtype \<Rightarrow> (cell \<times> int \<times> float64) list \<Rightarrow> frame" where
  "ratio_frame sid_dtype entries =
     (let kept = filter (\<lambda>(sid, effective_date, ratio). effective_date \<noteq> - 1) entries in
      \<lparr>index = map int [0..<length kept],
       cols =
         [(''sid'', (sid_dtype, map (\<lambda>(sid, effective_date, ratio). sid) kept)),
          (''effective_date'', (uint32_dtype,
             map (\<lambda>(sid, effective_date, ratio).
                    IntCell (uint (effective_date_uint32 effective_date))) kept)),
          (''ratio'', (float64_dtype,
             map (\<lambda>(sid, effective_date, ratio). FloatCell ratio) kept))]\<rparr>)"

definition calc_dividend_ratios ::
  "bar_reader \<Rightarrow> session list \<Rightarrow> frame option \<Rightarrow> warning list
     \<Rightarrow> (error + frame) \<times> warning list" where
  "calc_dividend_ratios reader calendar dividends warnings =
     (let empty_ratios =
            empty_frame [(''sid'', uint32_dtype), (''effective_date'', uint32_dtype),
                         (''ratio'', float64_dtype)]
      in case dividends of
        None \<Rightarrow> (Inr empty_ratios, warnings)
      | Some d \<Rightarrow>
          if empty d then (Inr empty_ratios, warnings)
          else
            (case getattr_values d ''ex_date'' of
               Inl e \<Rightarrow> (Inl e, warnings)
             | Inr ex_dates \<Rightarrow>
            (case getattr_values d ''sid'' of
               Inl e \<Rightarrow> (Inl e, warnings)
             | Inr sids \<Rightarrow>
            (case getattr_values d ''amount'' of
               Inl e \<Rightarrow> (Inl e, warnings)
             | Inr amounts \<Rightarrow>
            (case get_indexer_bfill (tz_localize_None calendar) ex_dates of
               Inl e \<Rightarrow> (Inl e, warnings)
             | Inr day_locs \<Rightarrow>
            (case np_isnull of
               Inl e \<Rightarrow> (Inl e, warnings)
             | Inr isnull \<Rightarrow>
            (case ratio_loop isnull reader calendar
                    (zip (snd sids)
                       (zip (map int_value (snd ex_dates)) (zip (snd amounts) day_locs)))
                    warnings of
               (Inl e, warnings') \<Rightarrow> (Inl e, warnings')
             | (Inr out, warnings') \<Rightarrow>
                 (Inr (ratio_frame (fst sids) (zip (snd sids) out)), warnings'))))))))"

text \<open>
  \<^verbatim>\<open>write_dividend_data\<close>: the payouts are written first, then the ratios are
  calculated from the caller's batch and written. The state is the connection and
  the warnings.
\<close>

definition write_dividend_data ::
  "bar_reader \<Rightarrow> session list \<Rightarrow> frame option \<Rightarrow> frame option
     \<Rightarrow> connection \<times> warning list \<Rightarrow> (error + unit) \<times> connection \<times> warning list" where
  "write_dividend_data reader calendar dividends stock_dividends st =
     (case write_dividends_impl dividends (fst st) of
        (Inl e, conn1) \<Rightarrow> (Inl e, conn1, snd st)
      | (Inr u, conn1) \<Rightarrow>
     (case write_stock_dividends_impl stock_dividends conn1 of
        (Inl e, conn2) \<Rightarrow> (Inl e, conn2, snd st)
      | (Inr u, conn2) \<Rightarrow>
     (case calc_dividend_ratios reader calendar dividends (snd st) of
        (Inl e, warnings') \<Rightarrow> (Inl e, conn2, warnings')
      | (Inr dividend_ratios, warnings') \<Rightarrow>
          (case write_frame ''dividends'' (Some dividend_ratios) conn2 of
             (r, conn3) \<Rightarrow> (r, conn3, warnings')))))"

section \<open>SQLiteAdjustmentReader\<close>




























text \<open>The cell of a fetched row at a position (NULL beyond its end).\<close>

definition cell_at :: "cell list \<Rightarrow> nat \<Rightarrow> cell" where
  "cell_at r j = (if j < length r then r ! j else Null)"


text \<open>The date columns of each table (\<^verbatim>\<open>self._datetime_int_cols\<close>).\<close>

definition datetime_int_cols :: "(string \<times> string list) list" where
  "datetime_int_cols =
     [(''dividend_payouts'', [''declared_date'', ''ex_date'', ''pay_date'', ''record_date'']),
      (''dividends'', [''effective_date'']),
      (''mergers'', [''effective_date'']),
      (''splits'', [''effective_date'']),
      (''stock_dividend_payouts'', [''declared_date'', ''ex_date'', ''pay_date'', ''record_date''])]"

text \<open>
  The column that \<^verbatim>\<open>pd.read_sql\<close> builds from the fetched values: pandas does not
  read the declared type of the column, it infers the dtype from the values. No
  values, or only NULLs, make an object column (of \<^verbatim>\<open>None\<close>); integers make an
  int64 column; anything else, floats or numbers with NULLs among them, makes a
  float64 column in which a NULL is NaN.
\<close>

fun is_IntCell :: "cell \<Rightarrow> bool" where
  "is_IntCell (IntCell v) = True"
| "is_IntCell c = False"

definition read_column :: "cell list \<Rightarrow> column" where
  "read_column vs =
     (if list_all (\<lambda>c. c = Null) vs then (object_dtype, vs)
      else if list_all is_IntCell vs then (int64_dtype, vs)
      else (float64_dtype, map (\<lambda>c. FloatCell (to_float64 c)) vs))"

text \<open>
  \<^verbatim>\<open>parse_dates\<close> with \<^verbatim>\<open>unit='s', utc=True\<close>: seconds to a UTC instant, a
  missing value to NaT. When a value of the column is outside the range of a
  Timestamp, \<^verbatim>\<open>to_datetime\<close> raises; pandas catches that and leaves the column as
  it was read.
\<close>

fun to_datetime_s :: "cell \<Rightarrow> cell" where
  "to_datetime_s (IntCell s) = IntCell (if s = NaT then NaT else s * 1000000000)"
| "to_datetime_s (FloatCell (Finite q)) = IntCell \<lfloor>q * 1000000000\<rfloor>"
| "to_datetime_s c = IntCell NaT"

fun in_Timestamp_bounds :: "cell \<Rightarrow> bool" where
  "in_Timestamp_bounds (IntCell s) =
     (s = NaT \<or> (- (2 ^ 63) < s * 1000000000 \<and> s * 1000000000 < 2 ^ 63))"
| "in_Timestamp_bounds (FloatCell (Finite q)) =
     (- (2 ^ 63) < \<lfloor>q * 1000000000\<rfloor> \<and> \<lfloor>q * 1000000000\<rfloor> < 2 ^ 63)"
| "in_Timestamp_bounds (FloatCell NaN) = True"
| "in_Timestamp_bounds (FloatCell x) = False"
| "in_Timestamp_bounds Null = True"

definition parse_date_column :: "column \<Rightarrow> column" where
  "parse_date_column c =
     (if list_all in_Timestamp_bounds (snd c)
      then (datetime64_ns_UTC, map to_datetime_s (snd c))
      else c)"

text \<open>
  \<^verbatim>\<open>_get_df_from_table\<close>: \<^verbatim>\<open>select * from table_name\<close> as a batch, the column
  \<^verbatim>\<open>index\<close> as its index; with \<^verbatim>\<open>convert_dates\<close> the date columns are parsed.
  pandas raises DatabaseError for a missing table (here OperationalError, its cause).
\<close>

definition get_df_from_table ::
  "bool \<Rightarrow> string \<Rightarrow> string list \<Rightarrow> connection \<Rightarrow> error + frame" where
  "get_df_from_table convert_dates table_name date_cols conn =
     (case map_of (tables conn) table_name of
        None \<Rightarrow> Inl OperationalError
      | Some t \<Rightarrow>
          Inr \<lparr>index = tindex t,
               cols = map (\<lambda>(j, (n, d)).
                             let c = read_column (map (\<lambda>r. cell_at r j) (trows t))
                             in if convert_dates \<and> n \<in> set date_cols
                                then (n, parse_date_column c)
                                else (n, c))
                          (enumerate 0 (tcols t))\<rparr>)"

fun unpack_tables ::
  "bool \<Rightarrow> (string \<times> string list) list \<Rightarrow> connection \<Rightarrow> error + (string \<times> frame) list" where
  "unpack_tables convert_dates [] conn = Inr []"
| "unpack_tables convert_dates ((t_name, date_cols) # rest) conn =
     (case get_df_from_table convert_dates t_name date_cols conn of
        Inl e \<Rightarrow> Inl e
      | Inr df \<Rightarrow>
          (case unpack_tables convert_dates rest conn of
             Inl e \<Rightarrow> Inl e
           | Inr dfs \<Rightarrow> Inr ((t_name, df) # dfs)))"

definition unpack_db_to_component_dfs ::
  "bool \<Rightarrow> connection \<Rightarrow> error + (string \<times> frame) list" where
  "unpack_db_to_component_dfs convert_dates conn =
     unpack_tables convert_dates datetime_int_cols conn"

section \<open>Example data\<close>

text \<open>
  A calendar of two sessions, Friday 2020-02-28 and Monday 2020-03-02 (midnight UTC),
  and a payout batch of one row: sid 42, ex-date Sunday 2020-03-01, declared
  2020-02-01, record date 2020-03-02, pay date 2020-03-16, amount 0.50.
\<close>

definition example_calendar :: "session list" where
  "example_calendar =
     [\<lparr>utc_ns = 1582848000000000000, utcoffset_ns = 0\<rparr>,
      \<lparr>utc_ns = 1583107200000000000, utcoffset_ns = 0\<rparr>]"

definition payout_batch :: "int \<Rightarrow> frame" where
  "payout_batch ex_date =
     \<lparr>index = [0],
      cols = [(''sid'', (int64_dtype, [IntCell 42])),
              (''ex_date'', (datetime64_ns, [IntCell ex_date])),
              (''declared_date'', (datetime64_ns, [IntCell 1580515200000000000])),
              (''record_date'', (datetime64_ns, [IntCell 1583107200000000000])),
              (''pay_date'', (datetime64_ns, [IntCell 1584316800000000000])),
              (''amount'', (float64_dtype, [FloatCell (Finite (1 / 2))]))]\<rparr>"

definition example_dividends :: frame where
  "example_dividends = payout_batch 1583020800000000000"

text \<open>The same payout with the ex-date Thursday 2020-02-27, before the first session.\<close>

definition early_dividends :: frame where
  "early_dividends = payout_batch 1582761600000000000"

text \<open>A price store with the close 50.0 everywhere, and one without data.\<close>

definition priced_reader :: bar_reader where
  "priced_reader sid dt fld = Inr (Finite 50)"

definition no_data_reader :: bar_reader where
  "no_data_reader sid dt fld = Inl NoDataOnDate"

definition empty_connection :: connection where
  "empty_connection = \<lparr>tables = [], open_cursors = 0\<rparr>"



text \<open>The store that holds the example payout, as \<^verbatim>\<open>write_dividend_payouts\<close> leaves it.\<close>

definition example_payouts :: table where
  "example_payouts =
     \<lparr>tcols = [(''sid'', int64_dtype), (''ex_date'', int64_dtype),
               (''declared_date'', int64_dtype), (''record_date'', int64_dtype),
               (''pay_date'', int64_dtype), (''amount'', float64_dtype)],
      trows = [[IntCell 42, IntCell 1583020800, IntCell 1580515200,
                IntCell 1583107200, IntCell 1584316800, FloatCell (Finite (1 / 2))]], tindex = [0]\<rparr>"

definition example_store :: connection where
  "example_store = \<lparr>tables = [(''dividend_payouts'', example_payouts)], open_cursors = 0\<rparr>"


definition mistyped_splits :: frame where
  "mistyped_splits =
     \<lparr>index = [0],
      cols = [(''sid'', (int64_dtype, [IntCell 42])),
              (''effective_date'', (int64_dtype, [IntCell 1583066096])),
              (''ratio'', (int64_dtype, [IntCell 2]))]\<rparr>"

definition misnamed_splits :: frame where
  "misnamed_splits =
     \<lparr>index = [0],
      cols = [(''sid'', (int64_dtype, [IntCell 42])),
              (''effective_date'', (int64_dtype, [IntCell 1583066096])),
              (''amount'', (float64_dtype, [FloatCell (Finite (1 / 2))]))]\<rparr>"

definition float_dated_splits :: frame where
  "float_dated_splits =
     \<lparr>index = [0],
      cols = [(''sid'', (int64_dtype, [IntCell 42])),
              (''effective_date'', (float64_dtype, [FloatCell (Finite 1583066096)])),
              (''ratio'', (float64_dtype, [FloatCell (Finite (1 / 2))]))]\<rparr>"

definition undated_splits :: frame where
  "undated_splits =
     \<lparr>index = [0],
      cols = [(''sid'', (int64_dtype, [IntCell 42])),
              (''ratio'', (float64_dtype, [FloatCell (Finite (1 / 2))]))]\<rparr>"


text \<open>
  The store as a write of no data at all leaves it: the five tables, without rows.
  \<open>store_without name\<close> is that store before the table \<open>name\<close> is written.
\<close>

definition blank_tables :: "(string \<times> table) list" where
  "blank_tables =
     [(''splits'', \<lparr>tcols = SQLITE_ADJUSTMENT_COLUMN_DTYPES, trows = [], tindex = []\<rparr>),
      (''mergers'', \<lparr>tcols = SQLITE_ADJUSTMENT_COLUMN_DTYPES, trows = [], tindex = []\<rparr>),
      (''dividend_payouts'', \<lparr>tcols = SQLITE_DIVIDEND_PAYOUT_COLUMN_DTYPES, trows = [], tindex = []\<rparr>),
      (''stock_dividend_payouts'',
         \<lparr>tcols = SQLITE_STOCK_DIVIDEND_PAYOUT_COLUMN_DTYPES, trows = [], tindex = []\<rparr>),
      (''dividends'', \<lparr>tcols = SQLITE_ADJUSTMENT_COLUMN_DTYPES, trows = [], tindex = []\<rparr>)]"

definition store_without :: "string \<Rightarrow> connection" where
  "store_without name =
     \<lparr>tables = filter (\<lambda>(n, t). n \<noteq> name) blank_tables, open_cursors = 0\<rparr>"








section \<open>calc_dividend_ratios on a batch with rows\<close>

lemma getitem_example_calendar:
  "getitem example_calendar (1 - 1) = Inr \<lparr>utc_ns = 1582848000000000000, utcoffset_ns = 0\<rparr>"
  by (simp add: getitem_def example_calendar_def)

text \<open>
  What the loop computes for the example row once it is given a null test (here: the
  value is NaN): the row is priced at the session before the ex-date and the ratio is
  \<open>1 - 0.5 / 50 = 0.99\<close>.
\<close>

lemma ratio_loop_example:
  "ratio_loop (\<lambda>x. x = NaN) priced_reader example_calendar
     [(IntCell 42, 1583020800000000000, FloatCell (Finite (1 / 2)), 1)] []
   = (Inr [(1583020800000000000, Finite (99 / 100))], [])"
  by (simp add: getitem_def example_calendar_def priced_reader_def)

text \<open>
  The function itself never reaches the loop: on every batch that has a row it raises,
  at the latest on line 379, and logs nothing.
\<close>

lemma calc_dividend_ratios_nonempty_raises:
  assumes "\<not> empty d"
  shows "\<exists>e. calc_dividend_ratios reader calendar (Some d) warnings = (Inl e, warnings)"
  using assms
  by (auto simp: calc_dividend_ratios_def np_isnull_def split: sum.splits)

text \<open>
  C1. The claim: a payout row whose reference day has a present, non-missing close
  \<open>c\<close> gives a ratio row with ratio \<open>1.0 - amount / c\<close>. At the example row (close 50.0,
  amount 0.50, expected ratio 0.99) the function returns no batch: the attribute
  access \<^verbatim>\<open>np.isnull\<close> raises AttributeError before the first row is looked at.
\<close>

theorem calc_dividend_ratios_priced_row_raises:
  "calc_dividend_ratios priced_reader example_calendar (Some example_dividends) []
   = (Inl AttributeError, [])"
  by (simp add: calc_dividend_ratios_def example_dividends_def payout_batch_def empty_def nrows_def
      getattr_values_def example_calendar_def tz_localize_None_def np_isnull_def get_indexer_bfill_def NaT_def)

text \<open>
  C2. The claim: a row whose price lookup signals no data is logged and left out, no
  exception leaves the ratio computation, and the payout is persisted all the same.
  With a price store that has no data, \<^verbatim>\<open>write_dividend_data\<close> persists the payout
  row (dates in seconds) and the empty stock payout table, then raises AttributeError
  out of \<^verbatim>\<open>calc_dividend_ratios\<close>: nothing is logged and the table \<^verbatim>\<open>dividends\<close>
  is never created.
\<close>

theorem write_dividend_data_no_data_raises:
  "write_dividend_data no_data_reader example_calendar (Some example_dividends) None
     (empty_connection, [])
   = (Inl AttributeError,
      \<lparr>tables =
         [(''dividend_payouts'',
           \<lparr>tcols = [(''sid'', int64_dtype), (''ex_date'', int64_dtype),
                     (''declared_date'', int64_dtype), (''record_date'', int64_dtype),
                     (''pay_date'', int64_dtype), (''amount'', float64_dtype)],
            trows = [[IntCell 42, IntCell 1583020800, IntCell 1580515200,
                      IntCell 1583107200, IntCell 1584316800, FloatCell (Finite (1 / 2))]], tindex = [0]\<rparr>),
          (''stock_dividend_payouts'',
           \<lparr>tcols = SQLITE_STOCK_DIVIDEND_PAYOUT_COLUMN_DTYPES, trows = [], tindex = []\<rparr>)],
       open_cursors = 0\<rparr>,
      [])"
  by (simp add: write_dividend_data_def write_dividends_impl_def write_stock_dividends_impl_def
      write_dividend_payouts_def write_stock_dividend_payouts_def write_impl_def
      encode_date_column_def astype_seconds_int64_def NaT_def
      example_dividends_def payout_batch_def empty_connection_def empty_def nrows_def columns_def dtypes_def
      SQLITE_DIVIDEND_PAYOUT_COLUMN_DTYPES_def SQLITE_STOCK_DIVIDEND_PAYOUT_COLUMN_DTYPES_def
      issubdtype_def to_sql_def frame_rows_def row_for_def empty_frame_def
      calc_dividend_ratios_def getattr_values_def example_calendar_def tz_localize_None_def
      np_isnull_def get_indexer_bfill_def NaT_def)

text \<open>
  C3. The claim: the reference day is the session before the one that the backward
  fill locates, and the close is fetched for (sid, that session). The backward fill
  is computed (position 1, Monday 2020-03-02, for the Sunday ex-date), but the
  result is the same AttributeError for every price store: line 386 and the lookup
  on line 389 are never reached.
\<close>

theorem calc_dividend_ratios_never_fetches:
  "get_indexer_bfill (tz_localize_None example_calendar)
     (datetime64_ns, [IntCell 1583020800000000000]) = Inr [1]
   \<and> (\<forall>reader. calc_dividend_ratios reader example_calendar (Some example_dividends) []
                 = (Inl AttributeError, []))"
  by (simp add: calc_dividend_ratios_def example_dividends_def payout_batch_def empty_def nrows_def
      getattr_values_def example_calendar_def tz_localize_None_def np_isnull_def get_indexer_bfill_def NaT_def)

text \<open>
  C10. The claim: for an ex-date at or before the first session the index \<open>0 - 1\<close>
  selects the calendar's last session and the close is fetched there. The backward
  fill gives position 0 and \<^verbatim>\<open>calendar[-1]\<close> would be the last session, but the
  function raises AttributeError before it indexes the calendar, for every price
  store.
\<close>

theorem calc_dividend_ratios_early_ex_date_raises:
  "get_indexer_bfill (tz_localize_None example_calendar)
     (datetime64_ns, [IntCell 1582761600000000000]) = Inr [0]
   \<and> getitem example_calendar (0 - 1) = Inr \<lparr>utc_ns = 1583107200000000000, utcoffset_ns = 0\<rparr>
   \<and> (\<forall>reader. calc_dividend_ratios reader example_calendar (Some early_dividends) []
                 = (Inl AttributeError, []))"
  by (simp add: calc_dividend_ratios_def early_dividends_def payout_batch_def empty_def nrows_def
      getattr_values_def example_calendar_def tz_localize_None_def np_isnull_def get_indexer_bfill_def NaT_def getitem_def)

section \<open>The loop and the indexers by themselves\<close>

text \<open>
  What lines 377 to 402 compute once the loop is given a null test. A row whose
  reference day has a close that is not null gets the ratio \<open>1 - amount / close\<close>
  (for the amount 0 this is 1, unless the close is 0 too, when it is NaN); a row
  without data is logged and left unresolved. The backward fill locates the first
  session at or after the ex-date; the reference day is the session before it, and
  for a located position 0 Python's index \<open>-1\<close> is the last session of the calendar.
\<close>

lemma ratio_loop_priced_row:
  assumes "getitem calendar (day_loc - 1) = Inr prev_close_date"
    and "reader sid prev_close_date ''close'' = Inr prev_close"
    and "\<not> isnull prev_close"
  shows "ratio_loop isnull reader calendar [(sid, ex_date, amt, day_loc)] warnings =
         (Inr [(ex_date, fsub (Finite 1) (fdiv (to_float64 amt) prev_close))], warnings)"
  using assms by simp

lemma ratio_loop_no_data_row:
  assumes "getitem calendar (day_loc - 1) = Inr prev_close_date"
    and "reader sid prev_close_date ''close'' = Inl NoDataOnDate"
  shows "ratio_loop isnull reader calendar [(sid, ex_date, amt, day_loc)] warnings =
         (Inr [(- 1, NaN)], warnings @ [(sid, ex_date, amt)])"
  using assms by simp

lemma ratio_of_zero_amount:
  "fsub (Finite 1) (fdiv (Finite 0) (Finite c)) = (if c = 0 then NaN else Finite 1)"
  by simp

lemma bfill_from_range: "bfill_from i idx x = - 1 \<or> int i \<le> bfill_from i idx x"
proof (induction idx arbitrary: i)
  case Nil
  then show ?case by simp
next
  case (Cons s ss)
  from Cons[of "Suc i"] show ?case by auto
qed

lemma bfill_from_located:
  assumes "bfill_from i idx x = int (i + j)"
  shows "j < length idx \<and> x \<le> idx ! j \<and> (\<forall>k < j. idx ! k < x)"
  using assms
proof (induction idx arbitrary: i j)
  case Nil
  then show ?case by simp
next
  case (Cons s ss)
  show ?case
  proof (cases "x \<le> s")
    case True
    with Cons.prems have "j = 0" by simp
    with True show ?thesis by simp
  next
    case False
    with Cons.prems have r: "bfill_from (Suc i) ss x = int (i + j)" by simp
    with bfill_from_range[of "Suc i" ss x] have "0 < j" by auto
    then obtain j' where j: "j = Suc j'" by (cases j) auto
    with r have "bfill_from (Suc i) ss x = int (Suc i + j')" by simp
    from Cons.IH[OF this] have "j' < length ss \<and> x \<le> ss ! j' \<and> (\<forall>k < j'. ss ! k < x)" .
    with False j show ?thesis by (auto simp: nth_Cons split: nat.splits)
  qed
qed

lemma bfill_from_first:
  assumes "idx \<noteq> []" and "x \<le> hd idx"
  shows "bfill_from 0 idx x = 0"
  using assms by (cases idx) auto

lemma getitem_minus_one:
  assumes "xs \<noteq> []"
  shows "getitem xs (0 - 1) = Inr (last xs)"
proof -
  from assms have l: "Suc 0 \<le> length xs" by (cases xs) simp_all
  then have "nat (int (length xs) + (0 - 1)) = length xs - 1" by simp
  with assms l show ?thesis by (simp add: getitem_def last_conv_nth)
qed

lemma getitem_previous:
  assumes "0 < j" and "j < length xs"
  shows "getitem xs (int j - 1) = Inr (xs ! (j - 1))"
proof -
  from assms(1) have "nat (int j - 1) = j - 1" by simp
  with assms show ?thesis by (simp add: getitem_def)
qed

section \<open>The seconds of a date\<close>









section \<open>Cursors\<close>



section \<open>Schema validation\<close>

lemma dtypes_None_iff: "dtypes f n = None \<longleftrightarrow> n \<notin> set (columns f)"
  by (simp add: dtypes_def columns_def map_of_eq_None_iff)

lemma check_dtypes_Inr_iff:
  "check_dtypes a ex = Inr () \<longleftrightarrow> list_all (\<lambda>(n, e). a n = Some e) ex"
  by (induction ex) (auto simp: issubdtype_def split: option.splits if_splits)

lemma check_dtypes_TypeError:
  assumes "\<forall>n \<in> fst ` set ex. a n \<noteq> None"
    and "\<exists>(n, e) \<in> set ex. \<exists>x. a n = Some x \<and> \<not> issubdtype x e"
  shows "check_dtypes a ex = Inl TypeError"
  using assms
proof (induction ex)
  case Nil
  then show ?case by simp
next
  case (Cons p ex)
  obtain n e where p: "p = (n, e)" by (cases p)
  from Cons.prems(1) p obtain x where x: "a n = Some x" by auto
  show ?case
  proof (cases "issubdtype x e")
    case True
    with Cons.prems p x have "\<exists>(n, e) \<in> set ex. \<exists>x. a n = Some x \<and> \<not> issubdtype x e"
      by auto
    moreover from Cons.prems(1) have "\<forall>n \<in> fst ` set ex. a n \<noteq> None" by auto
    ultimately have "check_dtypes a ex = Inl TypeError" by (rule Cons.IH[rotated])
    with p x True show ?thesis by simp
  next
    case False
    with p x show ?thesis by simp
  qed
qed

text \<open>The two rejections of \<^verbatim>\<open>_write\<close>; the connection comes back as it was.\<close>

lemma write_impl_ValueError:
  assumes "\<not> empty f" and "set (columns f) \<noteq> set (map fst expected_dtypes)"
  shows "write_impl tablename expected_dtypes (Some f) conn = (Inl ValueError, conn)"
  using assms by (simp add: write_impl_def)

lemma write_impl_TypeError:
  assumes "\<not> empty f" and "set (columns f) = set (map fst expected_dtypes)"
    and "\<exists>(colname, expected) \<in> set expected_dtypes.
            \<exists>actual. dtypes f colname = Some actual \<and> \<not> issubdtype actual expected"
  shows "write_impl tablename expected_dtypes (Some f) conn = (Inl TypeError, conn)"
proof -
  from assms(2) have "\<forall>n \<in> fst ` set expected_dtypes. dtypes f n \<noteq> None"
    by (auto simp: dtypes_None_iff)
  from check_dtypes_TypeError[OF this assms(3)]
  have "check_dtypes (dtypes f) expected_dtypes = Inl TypeError" .
  with assms(1,2) show ?thesis by (simp add: write_impl_def)
qed

text \<open>
  On the way through \<^verbatim>\<open>write_frame\<close> the batch is read before it is validated: a
  batch without the column \<^verbatim>\<open>effective_date\<close> raises KeyError there, and the
  column's dtype is replaced by int64 before \<^verbatim>\<open>_write\<close> sees it.
\<close>

lemma write_frame_missing_effective_date:
  assumes "tablename \<in> SQLITE_ADJUSTMENT_TABLENAMES" and "\<not> empty f"
    and "''effective_date'' \<notin> set (columns f)"
  shows "write_frame tablename (Some f) conn = (Inl KeyError, conn)"
proof -
  from assms(3) have "map_of (cols f) ''effective_date'' = None"
    by (simp add: columns_def map_of_eq_None_iff)
  with assms(1,2) show ?thesis
    by (simp add: write_frame_def encode_date_column_def)
qed

lemma write_frame_validates_encoded:
  assumes "tablename \<in> SQLITE_ADJUSTMENT_TABLENAMES" and "\<not> empty f"
    and "encode_date_column ''effective_date'' f = Inr f'"
  shows "write_frame tablename (Some f) conn =
         write_impl tablename SQLITE_ADJUSTMENT_COLUMN_DTYPES (Some f') conn"
  using assms by (simp add: write_frame_def)

lemma map_of_encoded:
  "map_of (map (\<lambda>(n, c). if n = name then (n, h c) else (n, c)) cs) k =
     (if k = name then map_option h (map_of cs k) else map_of cs k)"
  by (induction cs) auto

lemma encode_date_column_Inr:
  assumes "encode_date_column name f = Inr f'"
  shows "nrows f' = nrows f" and "columns f' = columns f"
    and "dtypes f' = (\<lambda>k. if k = name then Some int64_dtype else dtypes f k)"
    and "map_of (cols f') k =
           (if k = name then map_option astype_seconds_int64 (map_of (cols f) k)
            else map_of (cols f) k)"
proof -
  from assms obtain c where c: "map_of (cols f) name = Some c"
    and f': "f' = f\<lparr>cols := map (\<lambda>(n, c'). if n = name then (n, astype_seconds_int64 c')
                                             else (n, c')) (cols f)\<rparr>"
    by (auto simp: encode_date_column_def split: option.splits)
  show "nrows f' = nrows f" by (simp add: f' nrows_def)
  show "columns f' = columns f"
    by (simp add: f' columns_def comp_def case_prod_unfold if_distrib cong: if_cong)
  show m: "map_of (cols f') k =
           (if k = name then map_option astype_seconds_int64 (map_of (cols f) k)
            else map_of (cols f) k)"
    by (simp add: f' map_of_encoded)
  show "dtypes f' = (\<lambda>k. if k = name then Some int64_dtype else dtypes f k)"
  proof
    fix k
    show "dtypes f' k = (if k = name then Some int64_dtype else dtypes f k)"
      using c by (simp add: dtypes_def f' map_of_encoded astype_seconds_int64_def)
  qed
qed

lemma encode_effective_date:
  assumes "\<not> empty f" and "''effective_date'' \<in> set (columns f)"
  shows "\<exists>f'. encode_date_column ''effective_date'' f = Inr f' \<and> \<not> empty f' \<and>
              columns f' = columns f \<and>
              dtypes f' = (\<lambda>k. if k = ''effective_date'' then Some int64_dtype else dtypes f k)"
proof -
  from assms(2) have "map_of (cols f) ''effective_date'' \<noteq> None"
    by (simp add: columns_def map_of_eq_None_iff)
  then obtain f' where e: "encode_date_column ''effective_date'' f = Inr f'"
    by (auto simp: encode_date_column_def)
  note H = encode_date_column_Inr[OF e]
  from assms(1) H(1,2) have "\<not> empty f'" by (auto simp: empty_def columns_def)
  with e H(2,3) show ?thesis by blast
qed

lemma adjustment_columns:
  "set (map fst SQLITE_ADJUSTMENT_COLUMN_DTYPES) = {''effective_date'', ''ratio'', ''sid''}"
  by (simp add: SQLITE_ADJUSTMENT_COLUMN_DTYPES_def)

lemma write_frame_ValueError:
  assumes "tablename \<in> SQLITE_ADJUSTMENT_TABLENAMES" and "\<not> empty f"
    and "''effective_date'' \<in> set (columns f)"
    and "set (columns f) \<noteq> {''effective_date'', ''ratio'', ''sid''}"
  shows "write_frame tablename (Some f) conn = (Inl ValueError, conn)"
proof -
  from encode_effective_date[OF assms(2,3)] obtain f' where
    e: "encode_date_column ''effective_date'' f = Inr f'" and ne: "\<not> empty f'"
    and c: "columns f' = columns f" by blast
  have "set (columns f') \<noteq> set (map fst SQLITE_ADJUSTMENT_COLUMN_DTYPES)"
    unfolding adjustment_columns c by (rule assms(4))
  from write_impl_ValueError[OF ne this] write_frame_validates_encoded[OF assms(1,2) e]
  show ?thesis by simp
qed

lemma write_frame_TypeError:
  assumes "tablename \<in> SQLITE_ADJUSTMENT_TABLENAMES" and "\<not> empty f"
    and "set (columns f) = {''effective_date'', ''ratio'', ''sid''}"
    and "dtypes f ''ratio'' \<noteq> Some float64_dtype \<or> dtypes f ''sid'' \<noteq> Some int64_dtype"
  shows "write_frame tablename (Some f) conn = (Inl TypeError, conn)"
proof -
  from assms(3) have "''effective_date'' \<in> set (columns f)" by simp
  from encode_effective_date[OF assms(2) this] obtain f' where
    e: "encode_date_column ''effective_date'' f = Inr f'" and ne: "\<not> empty f'"
    and c: "columns f' = columns f"
    and d: "dtypes f' = (\<lambda>k. if k = ''effective_date'' then Some int64_dtype else dtypes f k)"
    by blast
  have cs: "set (columns f') = set (map fst SQLITE_ADJUSTMENT_COLUMN_DTYPES)"
    unfolding adjustment_columns c by (rule assms(3))
  from assms(3) have "''ratio'' \<in> set (columns f)" and "''sid'' \<in> set (columns f)"
    by simp_all
  then obtain a b where a: "dtypes f ''ratio'' = Some a" and b: "dtypes f ''sid'' = Some b"
    using dtypes_None_iff[of f] by fastforce
  with assms(4) have "a \<noteq> float64_dtype \<or> b \<noteq> int64_dtype" by simp
  with a b d have "\<exists>(colname, expected) \<in> set SQLITE_ADJUSTMENT_COLUMN_DTYPES.
            \<exists>actual. dtypes f' colname = Some actual \<and> \<not> issubdtype actual expected"
    by (auto simp: SQLITE_ADJUSTMENT_COLUMN_DTYPES_def issubdtype_def)
  from write_impl_TypeError[OF ne cs this] write_frame_validates_encoded[OF assms(1,2) e]
  show ?thesis by simp
qed

lemma write_frame_accepts:
  assumes "tablename \<in> SQLITE_ADJUSTMENT_TABLENAMES" and "\<not> empty f"
    and "set (columns f) = {''effective_date'', ''ratio'', ''sid''}"
    and "dtypes f ''ratio'' = Some float64_dtype" and "dtypes f ''sid'' = Some int64_dtype"
  shows "\<exists>f'. encode_date_column ''effective_date'' f = Inr f' \<and>
              write_frame tablename (Some f) conn = to_sql tablename f' conn"
proof -
  from assms(3) have "''effective_date'' \<in> set (columns f)" by simp
  from encode_effective_date[OF assms(2) this] obtain f' where
    e: "encode_date_column ''effective_date'' f = Inr f'" and ne: "\<not> empty f'"
    and c: "columns f' = columns f"
    and d: "dtypes f' = (\<lambda>k. if k = ''effective_date'' then Some int64_dtype else dtypes f k)"
    by blast
  have cs: "set (columns f') = set (map fst SQLITE_ADJUSTMENT_COLUMN_DTYPES)"
    unfolding adjustment_columns c by (rule assms(3))
  from assms(4,5) d
  have "list_all (\<lambda>(n, e). dtypes f' n = Some e) SQLITE_ADJUSTMENT_COLUMN_DTYPES"
    by (simp add: SQLITE_ADJUSTMENT_COLUMN_DTYPES_def)
  then have "check_dtypes (dtypes f') SQLITE_ADJUSTMENT_COLUMN_DTYPES = Inr ()"
    by (simp add: check_dtypes_Inr_iff)
  with ne cs have "write_impl tablename SQLITE_ADJUSTMENT_COLUMN_DTYPES (Some f') conn =
                   to_sql tablename f' conn"
    by (simp add: write_impl_def)
  with write_frame_validates_encoded[OF assms(1,2) e] e show ?thesis by simp
qed

text \<open>
  C4 (amended). A batch with rows that reaches the table write \<^verbatim>\<open>_write\<close> with a
  column set other than the declared one is rejected with ValueError, and one with a
  column whose dtype is not the declared one with TypeError; the connection comes back
  as it was, so no row was appended and no table created.
  \<^verbatim>\<open>write_dividend_payouts\<close> and \<^verbatim>\<open>write_stock_dividend_payouts\<close> hand the
  caller's batch to \<^verbatim>\<open>_write\<close> as it is. \<^verbatim>\<open>write_frame\<close> first replaces
  \<^verbatim>\<open>effective_date\<close> by its encoding as int64: a batch without that column
  raises KeyError (the connection as it was), the other columns are validated as
  above, and the dtype of \<^verbatim>\<open>effective_date\<close> itself is never a reason to reject:
  when the column set, \<^verbatim>\<open>ratio\<close> and \<^verbatim>\<open>sid\<close> conform, the encoded batch is
  handed to \<^verbatim>\<open>to_sql\<close>.
\<close>

theorem write_rejects_schema_violation:
  assumes "\<not> empty f" and "distinct (columns f)"
  shows "(set (columns f) \<noteq> set (map fst expected_dtypes) \<longrightarrow>
            write_impl tablename expected_dtypes (Some f) conn = (Inl ValueError, conn))
       \<and> (set (columns f) = set (map fst expected_dtypes) \<and>
          (\<exists>(colname, expected) \<in> set expected_dtypes.
             \<exists>actual. dtypes f colname = Some actual \<and> \<not> issubdtype actual expected) \<longrightarrow>
            write_impl tablename expected_dtypes (Some f) conn = (Inl TypeError, conn))
       \<and> write_dividend_payouts (Some f) conn =
           write_impl ''dividend_payouts'' SQLITE_DIVIDEND_PAYOUT_COLUMN_DTYPES (Some f) conn
       \<and> write_stock_dividend_payouts (Some f) conn =
           write_impl ''stock_dividend_payouts'' SQLITE_STOCK_DIVIDEND_PAYOUT_COLUMN_DTYPES
             (Some f) conn
       \<and> (tablename \<in> SQLITE_ADJUSTMENT_TABLENAMES \<longrightarrow>
            (''effective_date'' \<notin> set (columns f) \<longrightarrow>
               write_frame tablename (Some f) conn = (Inl KeyError, conn))
          \<and> (''effective_date'' \<in> set (columns f) \<and>
             set (columns f) \<noteq> {''effective_date'', ''ratio'', ''sid''} \<longrightarrow>
               write_frame tablename (Some f) conn = (Inl ValueError, conn))
          \<and> (set (columns f) = {''effective_date'', ''ratio'', ''sid''} \<and>
             (dtypes f ''ratio'' \<noteq> Some float64_dtype \<or> dtypes f ''sid'' \<noteq> Some int64_dtype) \<longrightarrow>
               write_frame tablename (Some f) conn = (Inl TypeError, conn))
          \<and> (set (columns f) = {''effective_date'', ''ratio'', ''sid''} \<and>
             dtypes f ''ratio'' = Some float64_dtype \<and> dtypes f ''sid'' = Some int64_dtype \<longrightarrow>
               (\<exists>f'. encode_date_column ''effective_date'' f = Inr f' \<and>
                      write_frame tablename (Some f) conn = to_sql tablename f' conn)))"
proof (intro conjI impI)
  assume "set (columns f) \<noteq> set (map fst expected_dtypes)"
  from write_impl_ValueError[OF assms(1) this]
  show "write_impl tablename expected_dtypes (Some f) conn = (Inl ValueError, conn)" .
next
  assume "set (columns f) = set (map fst expected_dtypes) \<and>
          (\<exists>(colname, expected) \<in> set expected_dtypes.
             \<exists>actual. dtypes f colname = Some actual \<and> \<not> issubdtype actual expected)"
  then show "write_impl tablename expected_dtypes (Some f) conn = (Inl TypeError, conn)"
    using write_impl_TypeError[OF assms(1)] by blast
next
  show "write_dividend_payouts (Some f) conn =
           write_impl ''dividend_payouts'' SQLITE_DIVIDEND_PAYOUT_COLUMN_DTYPES (Some f) conn"
    by (simp add: write_dividend_payouts_def)
next
  show "write_stock_dividend_payouts (Some f) conn =
           write_impl ''stock_dividend_payouts'' SQLITE_STOCK_DIVIDEND_PAYOUT_COLUMN_DTYPES
             (Some f) conn"
    by (simp add: write_stock_dividend_payouts_def)
next
  assume "tablename \<in> SQLITE_ADJUSTMENT_TABLENAMES"
    and "''effective_date'' \<notin> set (columns f)"
  from write_frame_missing_effective_date[OF this(1) assms(1) this(2)]
  show "write_frame tablename (Some f) conn = (Inl KeyError, conn)" .
next
  assume t: "tablename \<in> SQLITE_ADJUSTMENT_TABLENAMES"
    and "''effective_date'' \<in> set (columns f) \<and>
         set (columns f) \<noteq> {''effective_date'', ''ratio'', ''sid''}"
  then have "''effective_date'' \<in> set (columns f)"
    and "set (columns f) \<noteq> {''effective_date'', ''ratio'', ''sid''}" by blast+
  from write_frame_ValueError[OF t assms(1) this]
  show "write_frame tablename (Some f) conn = (Inl ValueError, conn)" .
next
  assume t: "tablename \<in> SQLITE_ADJUSTMENT_TABLENAMES"
    and "set (columns f) = {''effective_date'', ''ratio'', ''sid''} \<and>
         (dtypes f ''ratio'' \<noteq> Some float64_dtype \<or> dtypes f ''sid'' \<noteq> Some int64_dtype)"
  then have "set (columns f) = {''effective_date'', ''ratio'', ''sid''}"
    and "dtypes f ''ratio'' \<noteq> Some float64_dtype \<or> dtypes f ''sid'' \<noteq> Some int64_dtype"
    by blast+
  from write_frame_TypeError[OF t assms(1) this]
  show "write_frame tablename (Some f) conn = (Inl TypeError, conn)" .
next
  assume t: "tablename \<in> SQLITE_ADJUSTMENT_TABLENAMES"
    and "set (columns f) = {''effective_date'', ''ratio'', ''sid''} \<and>
         dtypes f ''ratio'' = Some float64_dtype \<and> dtypes f ''sid'' = Some int64_dtype"
  then have "set (columns f) = {''effective_date'', ''ratio'', ''sid''}"
    and "dtypes f ''ratio'' = Some float64_dtype" and "dtypes f ''sid'' = Some int64_dtype"
    by blast+
  from write_frame_accepts[OF t assms(1) this]
  show "\<exists>f'. encode_date_column ''effective_date'' f = Inr f' \<and>
             write_frame tablename (Some f) conn = to_sql tablename f' conn" .
qed

theorem write_rejects_schema_violation_witness:
  "\<not> empty mistyped_splits \<and> \<not> empty misnamed_splits
   \<and> distinct (columns mistyped_splits) \<and> distinct (columns misnamed_splits)
   \<and> ''splits'' \<in> SQLITE_ADJUSTMENT_TABLENAMES
   \<and> dtypes mistyped_splits ''ratio'' = Some int64_dtype
   \<and> \<not> issubdtype int64_dtype float64_dtype
   \<and> write_dividend_payouts (Some mistyped_splits) example_store = (Inl ValueError, example_store)
   \<and> write_impl ''splits'' SQLITE_ADJUSTMENT_COLUMN_DTYPES (Some mistyped_splits) example_store
       = (Inl TypeError, example_store)
   \<and> write_frame ''splits'' (Some mistyped_splits) example_store = (Inl TypeError, example_store)
   \<and> write_frame ''splits'' (Some misnamed_splits) example_store = (Inl ValueError, example_store)"
proof -
  have e: "\<not> empty mistyped_splits"
    by (simp add: empty_def nrows_def mistyped_splits_def)
  have e2: "\<not> empty misnamed_splits"
    by (simp add: empty_def nrows_def misnamed_splits_def)
  have k: "distinct (columns mistyped_splits)"
    by (simp add: columns_def mistyped_splits_def)
  have k2: "distinct (columns misnamed_splits)"
    by (simp add: columns_def misnamed_splits_def)
  have t: "''splits'' \<in> SQLITE_ADJUSTMENT_TABLENAMES"
    by (simp add: SQLITE_ADJUSTMENT_TABLENAMES_def)
  have d: "dtypes mistyped_splits ''ratio'' = Some int64_dtype"
    by (simp add: dtypes_def mistyped_splits_def)
  have n: "\<not> issubdtype int64_dtype float64_dtype"
    by (simp add: issubdtype_def)
  have c: "set (columns mistyped_splits) = {''effective_date'', ''ratio'', ''sid''}"
    by (simp add: columns_def mistyped_splits_def insert_commute)
  have c': "set (columns mistyped_splits) = set (map fst SQLITE_ADJUSTMENT_COLUMN_DTYPES)"
    unfolding adjustment_columns by (rule c)
  have p: "set (columns mistyped_splits) \<noteq> set (map fst SQLITE_DIVIDEND_PAYOUT_COLUMN_DTYPES)"
  proof
    assume "set (columns mistyped_splits) = set (map fst SQLITE_DIVIDEND_PAYOUT_COLUMN_DTYPES)"
    then have "''amount'' \<in> set (columns mistyped_splits)"
      by (simp add: SQLITE_DIVIDEND_PAYOUT_COLUMN_DTYPES_def)
    then show False
      by (simp add: columns_def mistyped_splits_def)
  qed
  have m1: "''effective_date'' \<in> set (columns misnamed_splits)"
    by (simp add: columns_def misnamed_splits_def)
  have m2: "set (columns misnamed_splits) \<noteq> {''effective_date'', ''ratio'', ''sid''}"
  proof
    assume "set (columns misnamed_splits) = {''effective_date'', ''ratio'', ''sid''}"
    then have "''ratio'' \<in> set (columns misnamed_splits)" by simp
    then show False
      by (simp add: columns_def misnamed_splits_def)
  qed
  have v: "\<exists>(colname, expected) \<in> set SQLITE_ADJUSTMENT_COLUMN_DTYPES.
            \<exists>actual. dtypes mistyped_splits colname = Some actual \<and> \<not> issubdtype actual expected"
    using d n by (simp add: SQLITE_ADJUSTMENT_COLUMN_DTYPES_def)
  note T = write_rejects_schema_violation[OF e k, of SQLITE_ADJUSTMENT_COLUMN_DTYPES "''splits''"
      example_store]
  note P = write_rejects_schema_violation[OF e k, of SQLITE_DIVIDEND_PAYOUT_COLUMN_DTYPES
      "''dividend_payouts''" example_store]
  note M = write_rejects_schema_violation[OF e2 k2, of SQLITE_ADJUSTMENT_COLUMN_DTYPES
      "''splits''" example_store]
  from T[THEN conjunct2, THEN conjunct1, rule_format, OF conjI[OF c' v]]
  have 1: "write_impl ''splits'' SQLITE_ADJUSTMENT_COLUMN_DTYPES (Some mistyped_splits) example_store
       = (Inl TypeError, example_store)" .
  from P[THEN conjunct1, rule_format, OF p]
  have "write_impl ''dividend_payouts'' SQLITE_DIVIDEND_PAYOUT_COLUMN_DTYPES (Some mistyped_splits)
          example_store = (Inl ValueError, example_store)" .
  then have 2: "write_dividend_payouts (Some mistyped_splits) example_store
                  = (Inl ValueError, example_store)"
    by (simp only: write_dividend_payouts_def)
  note F = T[THEN conjunct2, THEN conjunct2, THEN conjunct2, THEN conjunct2, rule_format, OF t]
  from d have "dtypes mistyped_splits ''ratio'' \<noteq> Some float64_dtype \<or>
               dtypes mistyped_splits ''sid'' \<noteq> Some int64_dtype" by simp
  from F[THEN conjunct2, THEN conjunct2, THEN conjunct1, rule_format, OF conjI[OF c this]]
  have 3: "write_frame ''splits'' (Some mistyped_splits) example_store
             = (Inl TypeError, example_store)" .
  note G = M[THEN conjunct2, THEN conjunct2, THEN conjunct2, THEN conjunct2, rule_format, OF t]
  from G[THEN conjunct2, THEN conjunct1, rule_format, OF conjI[OF m1 m2]]
  have 4: "write_frame ''splits'' (Some misnamed_splits) example_store
             = (Inl ValueError, example_store)" .
  from e e2 k k2 t d n 2 1 3 4 show ?thesis by (intro conjI)
qed

text \<open>
  C4 as stated fails on the way through \<^verbatim>\<open>write_frame\<close>: a batch whose
  \<^verbatim>\<open>effective_date\<close> is a float column, which is not the declared int64, is not
  rejected but appended with the column cast to int64, and a batch without the column
  raises KeyError, neither ValueError nor TypeError.
\<close>

theorem write_frame_effective_date_unchecked_counterexample:
  "dtypes float_dated_splits ''effective_date'' = Some float64_dtype
   \<and> \<not> issubdtype float64_dtype int64_dtype
   \<and> write_frame ''splits'' (Some float_dated_splits) empty_connection =
       (Inr (),
        \<lparr>tables =
           [(''splits'',
             \<lparr>tcols = [(''sid'', int64_dtype), (''effective_date'', int64_dtype),
                       (''ratio'', float64_dtype)],
              trows = [[IntCell 42, IntCell 1583066096, FloatCell (Finite (1 / 2))]],
              tindex = [0]\<rparr>)],
         open_cursors = 0\<rparr>)
   \<and> write_frame ''splits'' (Some undated_splits) empty_connection =
       (Inl KeyError, empty_connection)"
  by (simp add: float_dated_splits_def undated_splits_def write_frame_def
      SQLITE_ADJUSTMENT_TABLENAMES_def empty_def nrows_def encode_date_column_def
      astype_seconds_int64_def write_impl_def columns_def dtypes_def
      SQLITE_ADJUSTMENT_COLUMN_DTYPES_def issubdtype_def to_sql_def frame_rows_def
      row_for_def empty_connection_def NaT_def insert_commute)

section \<open>Chunked queries\<close>











section \<open>Empty batches and the export\<close>

lemma map_enumerate_snd:
  "map (\<lambda>(j, x). g x) (enumerate k xs) = map g xs"
  by (induction xs arbitrary: k) simp_all

lemma tcols_empty_frame:
  "map (\<lambda>(n, d, vs). (n, d)) (cols (empty_frame ex)) = ex"
  by (induction ex) (auto simp: empty_frame_def)

lemma frame_rows_empty_frame: "frame_rows (empty_frame ex) = []"
  by (simp add: frame_rows_def empty_frame_def nrows_def)

lemma to_sql_empty_frame_fresh:
  assumes "map_of (tables conn) tablename = None"
  shows "to_sql tablename (empty_frame ex) conn =
         (Inr (), conn\<lparr>tables := tables conn @
            [(tablename, \<lparr>tcols = ex, trows = [], tindex = []\<rparr>)]\<rparr>)"
proof -
  have "index (empty_frame ex) = []" by (simp add: empty_frame_def)
  with assms show ?thesis
    by (simp add: to_sql_def tcols_empty_frame frame_rows_empty_frame)
qed

lemma write_impl_empty:
  assumes "case fr of None \<Rightarrow> True | Some f \<Rightarrow> empty f"
    and "map_of (tables conn) tablename = None"
  shows "write_impl tablename ex fr conn =
         (Inr (), conn\<lparr>tables := tables conn @
            [(tablename, \<lparr>tcols = ex, trows = [], tindex = []\<rparr>)]\<rparr>)"
proof (cases fr)
  case None
  with assms(2) show ?thesis by (simp add: write_impl_def to_sql_empty_frame_fresh)
next
  case (Some f)
  with assms show ?thesis by (simp add: write_impl_def to_sql_empty_frame_fresh)
qed

text \<open>
  The export of a table without rows: pandas has no value to infer a dtype from, and
  every column is an object column.
\<close>

lemma read_column_Nil: "read_column [] = (object_dtype, [])"
  by (simp add: read_column_def)

lemma get_df_from_empty_table:
  assumes "map_of (tables conn) table_name = Some \<lparr>tcols = ex, trows = [], tindex = []\<rparr>"
  shows "get_df_from_table False table_name date_cols conn =
         Inr \<lparr>index = [], cols = map (\<lambda>(n, d). (n, (object_dtype, []))) ex\<rparr>"
proof -
  have "map (\<lambda>(j, (n, d)). (n, (object_dtype, []))) (enumerate 0 ex)
        = map (\<lambda>(n, d). (n, (object_dtype, []))) ex"
    by (rule map_enumerate_snd)
  with assms show ?thesis
    by (simp add: get_df_from_table_def read_column_Nil)
qed

lemma unpack_tables_lookup:
  assumes "unpack_tables convert_dates tcs conn = Inr dfs"
    and "distinct (map fst tcs)" and "(t, dc) \<in> set tcs"
  shows "\<exists>g. get_df_from_table convert_dates t dc conn = Inr g \<and> map_of dfs t = Some g"
  using assms
proof (induction tcs arbitrary: dfs)
  case Nil
  then show ?case by simp
next
  case (Cons p tcs)
  obtain t' dc' where p: "p = (t', dc')" by (cases p)
  from Cons.prems(1) p obtain df rest where
    df: "get_df_from_table convert_dates t' dc' conn = Inr df"
    and rest: "unpack_tables convert_dates tcs conn = Inr rest"
    and dfs: "dfs = (t', df) # rest"
    by (auto split: sum.splits)
  show ?case
  proof (cases "t = t'")
    case True
    from Cons.prems(2) p have "t' \<notin> fst ` set tcs" by simp
    with True have "(t, dc) \<notin> set tcs" by force
    with Cons.prems(3) p True have "dc = dc'" by simp
    with True df dfs show ?thesis by simp
  next
    case False
    with Cons.prems(3) p have mem: "(t, dc) \<in> set tcs" by simp
    from Cons.prems(2) have "distinct (map fst tcs)" by simp
    from Cons.IH[OF rest this mem]
    have "\<exists>g. get_df_from_table convert_dates t dc conn = Inr g \<and> map_of rest t = Some g" .
    with False show ?thesis using dfs by simp
  qed
qed

lemma unpack_db_lookup:
  assumes "unpack_db_to_component_dfs convert_dates conn = Inr dfs"
    and "(t, dc) \<in> set datetime_int_cols"
  shows "\<exists>g. get_df_from_table convert_dates t dc conn = Inr g \<and> map_of dfs t = Some g"
proof -
  have "distinct (map fst datetime_int_cols)"
    by (simp add: datetime_int_cols_def)
  from unpack_tables_lookup[OF assms(1)[unfolded unpack_db_to_component_dfs_def] this assms(2)]
  show ?thesis .
qed

lemma map_of_append_fresh:
  "map_of xs k = None \<Longrightarrow> map_of (xs @ [(k, v)]) k = Some v"
  by (induction xs) (auto split: if_splits)

lemma export_of_empty_write:
  assumes "map_of (tables conn) tablename = None"
    and "(tablename, dc) \<in> set datetime_int_cols"
    and "unpack_db_to_component_dfs False
           (conn\<lparr>tables := tables conn @
              [(tablename, \<lparr>tcols = ex, trows = [], tindex = []\<rparr>)]\<rparr>) = Inr dfs"
  shows "map_of dfs tablename =
           Some \<lparr>index = [], cols = map (\<lambda>(n, d). (n, (object_dtype, []))) ex\<rparr>"
proof -
  let ?conn' = "conn\<lparr>tables := tables conn @
                  [(tablename, \<lparr>tcols = ex, trows = [], tindex = []\<rparr>)]\<rparr>"
  have "map_of (tables ?conn') tablename = Some \<lparr>tcols = ex, trows = [], tindex = []\<rparr>"
    using assms(1) by (simp add: map_of_append_fresh del: map_of_append)
  then have "get_df_from_table False tablename dc ?conn' =
               Inr \<lparr>index = [], cols = map (\<lambda>(n, d). (n, (object_dtype, []))) ex\<rparr>"
    by (rule get_df_from_empty_table)
  with unpack_db_lookup[OF assms(3,2)] show ?thesis by simp
qed

lemma unpack_tables_total:
  assumes "list_all (\<lambda>(t, dc). map_of (tables conn) t \<noteq> None) tcs"
  shows "\<exists>dfs. unpack_tables convert_dates tcs conn = Inr dfs"
  using assms
proof (induction tcs)
  case Nil
  then show ?case by simp
next
  case (Cons p tcs)
  obtain t dc where p: "p = (t, dc)" by (cases p)
  from Cons.prems p obtain tb where "map_of (tables conn) t = Some tb" by auto
  then obtain g where "get_df_from_table convert_dates t dc conn = Inr g"
    by (simp add: get_df_from_table_def)
  moreover from Cons obtain dfs where "unpack_tables convert_dates tcs conn = Inr dfs"
    by auto
  ultimately show ?case using p by simp
qed

lemma map_of_append_other:
  "k' \<noteq> k \<Longrightarrow> map_of (xs @ [(k, v)]) k' = map_of xs k'"
  by (induction xs) auto

lemma unpack_after_splits:
  "\<exists>dfs. unpack_db_to_component_dfs convert_dates
            ((store_without ''splits'')\<lparr>tables := tables (store_without ''splits'') @ [(''splits'', t)]\<rparr>)
          = Inr dfs"
proof -
  have "list_all (\<lambda>(t', dc). map_of (tables ((store_without ''splits'')
                \<lparr>tables := tables (store_without ''splits'') @ [(''splits'', t)]\<rparr>)) t' \<noteq> None)
          datetime_int_cols"
    by (simp add: datetime_int_cols_def store_without_def blank_tables_def)
  from unpack_tables_total[OF this] show ?thesis
    by (simp only: unpack_db_to_component_dfs_def)
qed

lemma unpack_after_dividend_payouts:
  "\<exists>dfs. unpack_db_to_component_dfs convert_dates
            ((store_without ''dividend_payouts'')
               \<lparr>tables := tables (store_without ''dividend_payouts'') @ [(''dividend_payouts'', t)]\<rparr>)
          = Inr dfs"
proof -
  have "list_all (\<lambda>(t', dc). map_of (tables ((store_without ''dividend_payouts'')
                \<lparr>tables := tables (store_without ''dividend_payouts'') @ [(''dividend_payouts'', t)]\<rparr>)) t' \<noteq> None)
          datetime_int_cols"
    by (simp add: datetime_int_cols_def store_without_def blank_tables_def)
  from unpack_tables_total[OF this] show ?thesis
    by (simp only: unpack_db_to_component_dfs_def)
qed

text \<open>
  C7 (amended). Writing no batch (\<^verbatim>\<open>None\<close>) or an empty one to a table that does
  not exist yet creates it without rows and with exactly the declared columns and
  dtypes (besides the column for the index), for splits, mergers and dividends
  through \<^verbatim>\<open>write_frame\<close> and for the two payout tables. The export (without
  \<^verbatim>\<open>convert_dates\<close>) then gives, for that table, a batch without rows that has
  the declared columns, each of dtype object: the declared dtypes are not read back.
  \<^verbatim>\<open>calc_dividend_ratios\<close> on no
  batch or an empty one returns the empty ratio batch with columns sid (uint32),
  effective_date (uint32) and ratio (float64), and logs nothing.
\<close>

theorem empty_batch_creates_typed_table:
  assumes "case fr of None \<Rightarrow> True | Some f \<Rightarrow> empty f"
    and "map_of (tables conn) tablename = None"
  shows "(tablename \<in> SQLITE_ADJUSTMENT_TABLENAMES \<longrightarrow>
            (\<exists>conn'. write_frame tablename fr conn = (Inr (), conn') \<and>
               map_of (tables conn') tablename =
                 Some \<lparr>tcols = SQLITE_ADJUSTMENT_COLUMN_DTYPES, trows = [], tindex = []\<rparr> \<and>
               (\<forall>dfs. unpack_db_to_component_dfs False conn' = Inr dfs \<longrightarrow>
                  map_of dfs tablename =
                    Some \<lparr>index = [],
                          cols = map (\<lambda>(n, d). (n, (object_dtype, [])))
                                   SQLITE_ADJUSTMENT_COLUMN_DTYPES\<rparr>)))
       \<and> (tablename = ''dividend_payouts'' \<longrightarrow>
            (\<exists>conn'. write_dividend_payouts fr conn = (Inr (), conn') \<and>
               map_of (tables conn') tablename =
                 Some \<lparr>tcols = SQLITE_DIVIDEND_PAYOUT_COLUMN_DTYPES, trows = [], tindex = []\<rparr> \<and>
               (\<forall>dfs. unpack_db_to_component_dfs False conn' = Inr dfs \<longrightarrow>
                  map_of dfs tablename =
                    Some \<lparr>index = [],
                          cols = map (\<lambda>(n, d). (n, (object_dtype, [])))
                                   SQLITE_DIVIDEND_PAYOUT_COLUMN_DTYPES\<rparr>)))
       \<and> (tablename = ''stock_dividend_payouts'' \<longrightarrow>
            (\<exists>conn'. write_stock_dividend_payouts fr conn = (Inr (), conn') \<and>
               map_of (tables conn') tablename =
                 Some \<lparr>tcols = SQLITE_STOCK_DIVIDEND_PAYOUT_COLUMN_DTYPES, trows = [],
                       tindex = []\<rparr> \<and>
               (\<forall>dfs. unpack_db_to_component_dfs False conn' = Inr dfs \<longrightarrow>
                  map_of dfs tablename =
                    Some \<lparr>index = [],
                          cols = map (\<lambda>(n, d). (n, (object_dtype, [])))
                                   SQLITE_STOCK_DIVIDEND_PAYOUT_COLUMN_DTYPES\<rparr>)))
       \<and> calc_dividend_ratios reader calendar fr warnings =
           (Inr (empty_frame [(''sid'', uint32_dtype), (''effective_date'', uint32_dtype),
                              (''ratio'', float64_dtype)]), warnings)"
proof (intro conjI impI)
  assume t: "tablename \<in> SQLITE_ADJUSTMENT_TABLENAMES"
  then have "\<exists>dc. (tablename, dc) \<in> set datetime_int_cols"
    by (auto simp: SQLITE_ADJUSTMENT_TABLENAMES_def datetime_int_cols_def)
  then obtain dc where dc: "(tablename, dc) \<in> set datetime_int_cols" ..
  have "write_frame tablename fr conn =
          write_impl tablename SQLITE_ADJUSTMENT_COLUMN_DTYPES fr conn"
    using t assms(1) by (simp add: write_frame_def split: option.splits)
  with write_impl_empty[OF assms] export_of_empty_write[OF assms(2) dc] assms(2)
  show "\<exists>conn'. write_frame tablename fr conn = (Inr (), conn') \<and>
               map_of (tables conn') tablename =
                 Some \<lparr>tcols = SQLITE_ADJUSTMENT_COLUMN_DTYPES, trows = [], tindex = []\<rparr> \<and>
               (\<forall>dfs. unpack_db_to_component_dfs False conn' = Inr dfs \<longrightarrow>
                  map_of dfs tablename =
                    Some \<lparr>index = [],
                          cols = map (\<lambda>(n, d). (n, (object_dtype, [])))
                                   SQLITE_ADJUSTMENT_COLUMN_DTYPES\<rparr>)"
    by (simp add: map_of_append_fresh del: map_of_append)
next
  assume t: "tablename = ''dividend_payouts''"
  then have dc: "(tablename, [''declared_date'', ''ex_date'', ''pay_date'', ''record_date''])
                   \<in> set datetime_int_cols"
    by (simp add: datetime_int_cols_def)
  from write_impl_empty[OF assms] export_of_empty_write[OF assms(2) dc] assms(2) t
  show "\<exists>conn'. write_dividend_payouts fr conn = (Inr (), conn') \<and>
               map_of (tables conn') tablename =
                 Some \<lparr>tcols = SQLITE_DIVIDEND_PAYOUT_COLUMN_DTYPES, trows = [], tindex = []\<rparr> \<and>
               (\<forall>dfs. unpack_db_to_component_dfs False conn' = Inr dfs \<longrightarrow>
                  map_of dfs tablename =
                    Some \<lparr>index = [],
                          cols = map (\<lambda>(n, d). (n, (object_dtype, [])))
                                   SQLITE_DIVIDEND_PAYOUT_COLUMN_DTYPES\<rparr>)"
    by (simp add: write_dividend_payouts_def map_of_append_fresh del: map_of_append)
next
  assume t: "tablename = ''stock_dividend_payouts''"
  then have dc: "(tablename, [''declared_date'', ''ex_date'', ''pay_date'', ''record_date''])
                   \<in> set datetime_int_cols"
    by (simp add: datetime_int_cols_def)
  from write_impl_empty[OF assms] export_of_empty_write[OF assms(2) dc] assms(2) t
  show "\<exists>conn'. write_stock_dividend_payouts fr conn = (Inr (), conn') \<and>
               map_of (tables conn') tablename =
                 Some \<lparr>tcols = SQLITE_STOCK_DIVIDEND_PAYOUT_COLUMN_DTYPES, trows = [],
                       tindex = []\<rparr> \<and>
               (\<forall>dfs. unpack_db_to_component_dfs False conn' = Inr dfs \<longrightarrow>
                  map_of dfs tablename =
                    Some \<lparr>index = [],
                          cols = map (\<lambda>(n, d). (n, (object_dtype, [])))
                                   SQLITE_STOCK_DIVIDEND_PAYOUT_COLUMN_DTYPES\<rparr>)"
    by (simp add: write_stock_dividend_payouts_def map_of_append_fresh del: map_of_append)
next
  show "calc_dividend_ratios reader calendar fr warnings =
           (Inr (empty_frame [(''sid'', uint32_dtype), (''effective_date'', uint32_dtype),
                              (''ratio'', float64_dtype)]), warnings)"
    using assms(1) by (simp add: calc_dividend_ratios_def split: option.splits)
qed

theorem empty_batch_creates_typed_table_witness:
  "map_of (tables (store_without ''splits'')) ''splits'' = None
   \<and> ''splits'' \<in> SQLITE_ADJUSTMENT_TABLENAMES
   \<and> (\<exists>conn' dfs. write_frame ''splits'' None (store_without ''splits'') = (Inr (), conn') \<and>
         map_of (tables conn') ''splits'' =
           Some \<lparr>tcols = SQLITE_ADJUSTMENT_COLUMN_DTYPES, trows = [], tindex = []\<rparr> \<and>
         unpack_db_to_component_dfs False conn' = Inr dfs \<and>
         map_of dfs ''splits'' =
           Some \<lparr>index = [],
                 cols = [(''effective_date'', (object_dtype, [])), (''ratio'', (object_dtype, [])),
                         (''sid'', (object_dtype, []))]\<rparr>)
   \<and> empty \<lparr>index = [], cols = []\<rparr>
   \<and> map_of (tables (store_without ''dividend_payouts'')) ''dividend_payouts'' = None
   \<and> (\<exists>conn' dfs. write_dividend_payouts (Some \<lparr>index = [], cols = []\<rparr>)
                       (store_without ''dividend_payouts'') = (Inr (), conn') \<and>
         map_of (tables conn') ''dividend_payouts'' =
           Some \<lparr>tcols = SQLITE_DIVIDEND_PAYOUT_COLUMN_DTYPES, trows = [], tindex = []\<rparr> \<and>
         unpack_db_to_component_dfs False conn' = Inr dfs \<and>
         map_of dfs ''dividend_payouts'' =
           Some \<lparr>index = [],
                 cols = [(''sid'', (object_dtype, [])), (''ex_date'', (object_dtype, [])),
                         (''declared_date'', (object_dtype, [])),
                         (''record_date'', (object_dtype, [])),
                         (''pay_date'', (object_dtype, [])), (''amount'', (object_dtype, []))]\<rparr>)
   \<and> calc_dividend_ratios priced_reader example_calendar (Some \<lparr>index = [], cols = []\<rparr>) [] =
        (Inr \<lparr>index = [],
              cols = [(''sid'', (uint32_dtype, [])), (''effective_date'', (uint32_dtype, [])),
                      (''ratio'', (float64_dtype, []))]\<rparr>, [])"
proof -
  have a1: "case None :: frame option of None \<Rightarrow> True | Some f \<Rightarrow> empty f" by simp
  have a2: "map_of (tables (store_without ''splits'')) ''splits'' = None"
    by (simp add: store_without_def blank_tables_def)
  have a3: "''splits'' \<in> SQLITE_ADJUSTMENT_TABLENAMES"
    by (simp add: SQLITE_ADJUSTMENT_TABLENAMES_def)
  have b0: "empty \<lparr>index = [], cols = []\<rparr>" by (simp add: empty_def nrows_def)
  then have b1: "case Some \<lparr>index = [], cols = []\<rparr> of None \<Rightarrow> True | Some f \<Rightarrow> empty f"
    by simp
  have b2: "map_of (tables (store_without ''dividend_payouts'')) ''dividend_payouts'' = None"
    by (simp add: store_without_def blank_tables_def)
  note A = empty_batch_creates_typed_table[OF a1 a2, of priced_reader example_calendar "[]",
      THEN conjunct1, rule_format, OF a3]
  note B = empty_batch_creates_typed_table[OF b1 b2, of priced_reader example_calendar "[]",
      THEN conjunct2]
  note B1 = B[THEN conjunct1, rule_format, OF refl]
  note B3 = B[THEN conjunct2, THEN conjunct2]
  from A obtain conn' where
    w: "write_frame ''splits'' None (store_without ''splits'') = (Inr (), conn')"
    and m: "map_of (tables conn') ''splits'' =
              Some \<lparr>tcols = SQLITE_ADJUSTMENT_COLUMN_DTYPES, trows = [], tindex = []\<rparr>"
    and x: "\<forall>dfs. unpack_db_to_component_dfs False conn' = Inr dfs \<longrightarrow>
                  map_of dfs ''splits'' =
                    Some \<lparr>index = [],
                          cols = map (\<lambda>(n, d). (n, (object_dtype, [])))
                                   SQLITE_ADJUSTMENT_COLUMN_DTYPES\<rparr>"
    by (elim exE conjE)
  have "write_frame ''splits'' None (store_without ''splits'') =
        write_impl ''splits'' SQLITE_ADJUSTMENT_COLUMN_DTYPES None (store_without ''splits'')"
    using a3 by (simp add: write_frame_def)
  with w write_impl_empty[OF a1 a2, of SQLITE_ADJUSTMENT_COLUMN_DTYPES]
  have cq: "conn' = (store_without ''splits'')\<lparr>tables := tables (store_without ''splits'') @
          [(''splits'', \<lparr>tcols = SQLITE_ADJUSTMENT_COLUMN_DTYPES, trows = [], tindex = []\<rparr>)]\<rparr>"
    by simp
  have "\<exists>dfs. unpack_db_to_component_dfs False conn' = Inr dfs"
    unfolding cq by (rule unpack_after_splits)
  then obtain dfs where u: "unpack_db_to_component_dfs False conn' = Inr dfs" ..
  from x[rule_format, OF u]
  have g: "map_of dfs ''splits'' =
           Some \<lparr>index = [],
                 cols = [(''effective_date'', (object_dtype, [])), (''ratio'', (object_dtype, [])),
                         (''sid'', (object_dtype, []))]\<rparr>"
    by (simp add: SQLITE_ADJUSTMENT_COLUMN_DTYPES_def)
  from w m u g have 1: "\<exists>conn' dfs.
         write_frame ''splits'' None (store_without ''splits'') = (Inr (), conn') \<and>
         map_of (tables conn') ''splits'' =
           Some \<lparr>tcols = SQLITE_ADJUSTMENT_COLUMN_DTYPES, trows = [], tindex = []\<rparr> \<and>
         unpack_db_to_component_dfs False conn' = Inr dfs \<and>
         map_of dfs ''splits'' =
           Some \<lparr>index = [],
                 cols = [(''effective_date'', (object_dtype, [])), (''ratio'', (object_dtype, [])),
                         (''sid'', (object_dtype, []))]\<rparr>"
    by (intro exI conjI)
  from B1 obtain conn2 where
    w2: "write_dividend_payouts (Some \<lparr>index = [], cols = []\<rparr>)
           (store_without ''dividend_payouts'') = (Inr (), conn2)"
    and m2: "map_of (tables conn2) ''dividend_payouts'' =
              Some \<lparr>tcols = SQLITE_DIVIDEND_PAYOUT_COLUMN_DTYPES, trows = [], tindex = []\<rparr>"
    and x2: "\<forall>dfs. unpack_db_to_component_dfs False conn2 = Inr dfs \<longrightarrow>
                  map_of dfs ''dividend_payouts'' =
                    Some \<lparr>index = [],
                          cols = map (\<lambda>(n, d). (n, (object_dtype, [])))
                                   SQLITE_DIVIDEND_PAYOUT_COLUMN_DTYPES\<rparr>"
    by (elim exE conjE)
  from w2 write_impl_empty[OF b1 b2, of SQLITE_DIVIDEND_PAYOUT_COLUMN_DTYPES]
  have cq2: "conn2 = (store_without ''dividend_payouts'')
          \<lparr>tables := tables (store_without ''dividend_payouts'') @
          [(''dividend_payouts'',
            \<lparr>tcols = SQLITE_DIVIDEND_PAYOUT_COLUMN_DTYPES, trows = [], tindex = []\<rparr>)]\<rparr>"
    by (simp add: write_dividend_payouts_def)
  have "\<exists>dfs. unpack_db_to_component_dfs False conn2 = Inr dfs"
    unfolding cq2 by (rule unpack_after_dividend_payouts)
  then obtain dfs2 where u2: "unpack_db_to_component_dfs False conn2 = Inr dfs2" ..
  from x2[rule_format, OF u2]
  have g2: "map_of dfs2 ''dividend_payouts'' =
           Some \<lparr>index = [],
                 cols = [(''sid'', (object_dtype, [])), (''ex_date'', (object_dtype, [])),
                         (''declared_date'', (object_dtype, [])),
                         (''record_date'', (object_dtype, [])),
                         (''pay_date'', (object_dtype, [])), (''amount'', (object_dtype, []))]\<rparr>"
    by (simp add: SQLITE_DIVIDEND_PAYOUT_COLUMN_DTYPES_def)
  from w2 m2 u2 g2 have 2: "\<exists>conn' dfs.
         write_dividend_payouts (Some \<lparr>index = [], cols = []\<rparr>)
                       (store_without ''dividend_payouts'') = (Inr (), conn') \<and>
         map_of (tables conn') ''dividend_payouts'' =
           Some \<lparr>tcols = SQLITE_DIVIDEND_PAYOUT_COLUMN_DTYPES, trows = [], tindex = []\<rparr> \<and>
         unpack_db_to_component_dfs False conn' = Inr dfs \<and>
         map_of dfs ''dividend_payouts'' =
           Some \<lparr>index = [],
                 cols = [(''sid'', (object_dtype, [])), (''ex_date'', (object_dtype, [])),
                         (''declared_date'', (object_dtype, [])),
                         (''record_date'', (object_dtype, [])),
                         (''pay_date'', (object_dtype, [])), (''amount'', (object_dtype, []))]\<rparr>"
    by (intro exI conjI)
  from B3 have 3: "calc_dividend_ratios priced_reader example_calendar
                     (Some \<lparr>index = [], cols = []\<rparr>) [] =
        (Inr \<lparr>index = [],
              cols = [(''sid'', (uint32_dtype, [])), (''effective_date'', (uint32_dtype, [])),
                      (''ratio'', (float64_dtype, []))]\<rparr>, [])"
    by (simp add: empty_frame_def)
  from a2 a3 1 b0 b2 2 3 show ?thesis by (intro conjI)
qed

text \<open>
  C7 as stated fails in its export: after a write of no data to \<^verbatim>\<open>splits\<close> the
  table has the declared dtypes, but the exported batch has the dtype object where
  the declaration has int64 and float64.
\<close>

theorem empty_export_untyped_counterexample:
  "dtypes (empty_frame SQLITE_ADJUSTMENT_COLUMN_DTYPES) ''ratio'' = Some float64_dtype
   \<and> (case write_frame ''splits'' None (store_without ''splits'') of
        (Inl e, conn') \<Rightarrow> False
      | (Inr u, conn') \<Rightarrow>
          map_of (tables conn') ''splits'' =
            Some \<lparr>tcols = [(''effective_date'', int64_dtype), (''ratio'', float64_dtype),
                            (''sid'', int64_dtype)],
                  trows = [], tindex = []\<rparr> \<and>
          (case unpack_db_to_component_dfs False conn' of
             Inl e \<Rightarrow> False
           | Inr dfs \<Rightarrow>
               map_of dfs ''splits'' =
                 Some \<lparr>index = [],
                       cols = [(''effective_date'', (object_dtype, [])),
                               (''ratio'', (object_dtype, [])),
                               (''sid'', (object_dtype, []))]\<rparr>))"
  by (simp add: write_frame_def SQLITE_ADJUSTMENT_TABLENAMES_def write_impl_def to_sql_def
      empty_frame_def frame_rows_def nrows_def store_without_def blank_tables_def
      SQLITE_ADJUSTMENT_COLUMN_DTYPES_def SQLITE_DIVIDEND_PAYOUT_COLUMN_DTYPES_def
      SQLITE_STOCK_DIVIDEND_PAYOUT_COLUMN_DTYPES_def dtypes_def
      unpack_db_to_component_dfs_def datetime_int_cols_def get_df_from_table_def
      read_column_def)

section \<open>The dtypes of the persisted rows\<close>

























section \<open>The round trip through the store\<close>





lemma map_of_cond_map:
  "map_of (map (\<lambda>(n, c). if P n then (n, h c) else (n, c)) cs) k =
     (if P k then map_option h (map_of cs k) else map_of cs k)"
  by (induction cs) auto



























end
